theory Spec2Isabelle
  imports Main "HOL-Library.Stream"
begin

section \<open>A cache-disabling static file server\<close>

text \<open>
  The program is \<^verbatim>\<open>server.py\<close>: a subclass \<^verbatim>\<open>NoCacheHTTPRequestHandler\<close> of the
  standard library's \<^verbatim>\<open>SimpleHTTPRequestHandler\<close> that overrides \<^verbatim>\<open>end_headers\<close>, and a
  module body that changes the working directory, binds a \<^verbatim>\<open>socketserver.TCPServer\<close>,
  prints three lines and calls \<^verbatim>\<open>serve_forever\<close>.

  Everything the program does beyond these lines is inherited from the Python standard
  library (\<^verbatim>\<open>http/server.py\<close>, \<^verbatim>\<open>socketserver.py\<close>, \<^verbatim>\<open>posixpath.py\<close>; CPython 3.11).
  The inherited methods are transcribed below as far as the program reaches them; what
  the operating system, the clock and the parsing helpers answer is a parameter
  (record \<open>env\<close> for a request, record \<open>os_env\<close> for startup).
\<close>

subsection \<open>Bytes and text\<close>

type_synonym bytes = string

definition CRLF :: bytes where
  "CRLF = [CHR 0x0D, CHR 0x0A]"

text \<open>\<^verbatim>\<open>str(n)\<close> and \<^verbatim>\<open>"%d" % n\<close> for a natural number.\<close>

definition digit :: "nat \<Rightarrow> char" where
  "digit d = ''0123456789'' ! d"

function str_nat :: "nat \<Rightarrow> string" where
  "str_nat n = (if n < 10 then [digit n] else str_nat (n div 10) @ [digit (n mod 10)])"
  by pat_completeness auto
termination
  by (relation "measure (\<lambda>n. n)") auto

declare str_nat.simps [simp del]

text \<open>\<^verbatim>\<open>str.lower()\<close> on ASCII text.\<close>

definition lower_char :: "char \<Rightarrow> char" where
  "lower_char c =
     (case map_of (zip ''ABCDEFGHIJKLMNOPQRSTUVWXYZ'' ''abcdefghijklmnopqrstuvwxyz'') c of
        Some l \<Rightarrow> l
      | None \<Rightarrow> c)"

definition lower :: "string \<Rightarrow> string" where
  "lower s = map lower_char s"

definition endswith :: "string \<Rightarrow> string \<Rightarrow> bool" where
  "endswith s suffix = (length suffix \<le> length s \<and> drop (length s - length suffix) s = suffix)"

definition startswith :: "string \<Rightarrow> string \<Rightarrow> bool" where
  "startswith s pre = (take (length pre) s = pre)"

subsection \<open>The request handler object\<close>

text \<open>
  The attributes of a \<^verbatim>\<open>BaseHTTPRequestHandler\<close> that the response path reads or writes.
  \<open>command\<close>, \<open>path\<close>, \<open>request_version\<close> and \<open>headers\<close> are set by \<^verbatim>\<open>parse_request\<close>;
  \<open>headers\<close> is the lookup of the request's header message (\<^verbatim>\<open>name in self.headers\<close>,
  \<^verbatim>\<open>self.headers[name]\<close>). \<open>headers_buffer\<close> is \<^verbatim>\<open>_headers_buffer\<close>, with the absent
  attribute as the empty list. \<open>wfile\<close> is every byte written to the connection so far
  (the stream is unbuffered: \<^verbatim>\<open>wbufsize = 0\<close>).
\<close>

record handler =
  command :: string
  path :: string
  request_version :: string
  headers :: "string \<Rightarrow> string option"
  headers_buffer :: "bytes list"
  close_connection :: bool
  wfile :: bytes

definition protocol_version :: string where
  "protocol_version = ''HTTP/1.0''"

subsection \<open>What the library, the clock and the file system answer\<close>

text \<open>
  A file system entry as the handler sees it: a regular file with its bytes, its
  modification time in whole seconds and whether \<^verbatim>\<open>open(path, 'rb')\<close> succeeds; or a
  directory with its entries and whether \<^verbatim>\<open>os.listdir\<close> succeeds.
\<close>

datatype node =
    RegularFile (content: bytes) (mtime: int) (readable: bool)
  | Directory (entries: "string list") (listable: bool)

text \<open>
  The helpers of the library that the response path calls and the program does not
  influence:
  \<^item> \<open>translate_path\<close>: \<^verbatim>\<open>SimpleHTTPRequestHandler.translate_path\<close>, from the request path to
    a path under the directory the handler serves (\<^verbatim>\<open>os.getcwd()\<close> when it is created);
  \<^item> \<open>urlsplit_path\<close>: \<^verbatim>\<open>urllib.parse.urlsplit(self.path).path\<close>; \<open>redirect_url\<close>: the same
    URL with \<^verbatim>\<open>'/'\<close> added to its path (\<^verbatim>\<open>urlunsplit\<close>);
  \<^item> \<open>fs\<close>: the file system, by path; \<open>guess_type\<close>: the MIME type of a path;
    \<open>fs_encoding\<close>: \<^verbatim>\<open>sys.getfilesystemencoding()\<close>;
  \<^item> \<open>responses\<close>: the table \<^verbatim>\<open>BaseHTTPRequestHandler.responses\<close> from a status code to
    its phrase and description;
  \<^item> \<open>version_string\<close>: \<^verbatim>\<open>self.version_string()\<close>; \<open>date_time_string\<close>:
    \<^verbatim>\<open>self.date_time_string(timestamp)\<close>, \<open>None\<close> for the current time;
  \<^item> \<open>parse_ims\<close>: the value of an \<^verbatim>\<open>If-Modified-Since\<close> header in seconds, when
    \<^verbatim>\<open>email.utils.parsedate_to_datetime\<close> accepts it and its time zone is UTC or absent;
  \<^item> \<open>error_page\<close>: \<^verbatim>\<open>error_message_format\<close> filled with code, escaped message and
    escaped explanation, encoded; \<open>listing_page\<close>: the HTML of a directory listing, encoded,
    from the directory's path, the request path and the entries;
  \<^item> \<open>repr\<close>: \<^verbatim>\<open>"%r" % s\<close>.
\<close>

record env =
  translate_path :: "string \<Rightarrow> string"
  urlsplit_path :: "string \<Rightarrow> string"
  redirect_url :: "string \<Rightarrow> string"
  fs :: "string \<Rightarrow> node option"
  guess_type :: "string \<Rightarrow> string"
  fs_encoding :: string
  responses :: "nat \<Rightarrow> (string \<times> string) option"
  version_string :: string
  date_time_string :: "int option \<Rightarrow> string"
  parse_ims :: "string \<Rightarrow> int option"
  error_page :: "nat \<Rightarrow> string \<Rightarrow> string \<Rightarrow> bytes"
  listing_page :: "string \<Rightarrow> string \<Rightarrow> string list \<Rightarrow> bytes"
  repr :: "string \<Rightarrow> string"





text \<open>
  \<^verbatim>\<open>posixpath.join(a, b)\<close>:
  \<^verbatim>\<open>
  if b.startswith(sep): path = b
  elif not path or path.endswith(sep): path += b
  else: path += sep + b
  \<close>
\<close>

definition join :: "string \<Rightarrow> string \<Rightarrow> string" where
  "join a b =
     (if startswith b ''/'' then b
      else if a = [] \<or> endswith a ''/'' then a @ b
      else a @ ''/'' @ b)"

subsection \<open>Inherited response methods\<close>

text \<open>
  \<^verbatim>\<open>BaseHTTPRequestHandler.send_response_only(code, message=None)\<close>:
  \<^verbatim>\<open>
  if self.request_version != 'HTTP/0.9':
      if message is None:
          if code in self.responses:
              message = self.responses[code][0]
          else:
              message = ''
      self._headers_buffer.append(("%s %d %s\r\n" %
              (self.protocol_version, code, message)).encode('latin-1', 'strict'))
  \<close>
\<close>

definition status_line :: "nat \<Rightarrow> string \<Rightarrow> bytes" where
  "status_line code message = protocol_version @ '' '' @ str_nat code @ '' '' @ message @ CRLF"

definition phrase :: "env \<Rightarrow> nat \<Rightarrow> string" where
  "phrase E code = (case responses E code of Some (short, long) \<Rightarrow> short | None \<Rightarrow> [])"

definition send_response_only :: "env \<Rightarrow> nat \<Rightarrow> string option \<Rightarrow> handler \<Rightarrow> handler" where
  "send_response_only E code message h =
     (if request_version h \<noteq> ''HTTP/0.9''
      then h\<lparr>headers_buffer := headers_buffer h @
             [status_line code (case message of None \<Rightarrow> phrase E code | Some m \<Rightarrow> m)]\<rparr>
      else h)"

text \<open>
  \<^verbatim>\<open>BaseHTTPRequestHandler.send_header\<close>:
  \<^verbatim>\<open>
  if self.request_version != 'HTTP/0.9':
      self._headers_buffer.append(("%s: %s\r\n" % (keyword, value)).encode('latin-1', 'strict'))
  if keyword.lower() == 'connection':
      if value.lower() == 'close':
          self.close_connection = True
      elif value.lower() == 'keep-alive':
          self.close_connection = False
  \<close>
\<close>

definition header_line :: "string \<Rightarrow> string \<Rightarrow> bytes" where
  "header_line keyword val = keyword @ '': '' @ val @ CRLF"

definition send_header :: "string \<Rightarrow> string \<Rightarrow> handler \<Rightarrow> handler" where
  "send_header keyword val h =
     (let h1 = (if request_version h \<noteq> ''HTTP/0.9''
                then h\<lparr>headers_buffer := headers_buffer h @ [header_line keyword val]\<rparr>
                else h)
      in if lower keyword = ''connection''
         then (if lower val = ''close'' then h1\<lparr>close_connection := True\<rparr>
               else if lower val = ''keep-alive'' then h1\<lparr>close_connection := False\<rparr>
               else h1)
         else h1)"

text \<open>
  \<^verbatim>\<open>BaseHTTPRequestHandler.flush_headers\<close> and \<^verbatim>\<open>BaseHTTPRequestHandler.end_headers\<close>:
  \<^verbatim>\<open>
  def end_headers(self):
      if self.request_version != 'HTTP/0.9':
          self._headers_buffer.append(b"\r\n")
          self.flush_headers()
  def flush_headers(self):
      if hasattr(self, '_headers_buffer'):
          self.wfile.write(b"".join(self._headers_buffer))
          self._headers_buffer = []
  \<close>
\<close>

definition flush_headers :: "handler \<Rightarrow> handler" where
  "flush_headers h = h\<lparr>wfile := wfile h @ concat (headers_buffer h), headers_buffer := []\<rparr>"

definition base_end_headers :: "handler \<Rightarrow> handler" where
  "base_end_headers h =
     (if request_version h \<noteq> ''HTTP/0.9''
      then flush_headers (h\<lparr>headers_buffer := headers_buffer h @ [CRLF]\<rparr>)
      else h)"

text \<open>
  The program's own method, \<^verbatim>\<open>NoCacheHTTPRequestHandler.end_headers\<close>:
  \<^verbatim>\<open>
  def end_headers(self):
      self.send_header('Cache-Control', 'no-cache, no-store, must-revalidate')
      self.send_header('Pragma', 'no-cache')
      self.send_header('Expires', '0')
      super().end_headers()
  \<close>
  Every \<^verbatim>\<open>self.end_headers()\<close> of the inherited methods dispatches to it.
\<close>

definition end_headers :: "handler \<Rightarrow> handler" where
  "end_headers h =
     base_end_headers
       (send_header ''Expires'' ''0''
         (send_header ''Pragma'' ''no-cache''
           (send_header ''Cache-Control'' ''no-cache, no-store, must-revalidate'' h)))"

text \<open>
  \<^verbatim>\<open>BaseHTTPRequestHandler.send_response(code, message=None)\<close>; \<^verbatim>\<open>log_request\<close> writes a line
  to the standard error stream and touches nothing of the handler:
  \<^verbatim>\<open>
  self.log_request(code)
  self.send_response_only(code, message)
  self.send_header('Server', self.version_string())
  self.send_header('Date', self.date_time_string())
  \<close>
\<close>

definition send_response :: "env \<Rightarrow> nat \<Rightarrow> string option \<Rightarrow> handler \<Rightarrow> handler" where
  "send_response E code message h =
     send_header ''Date'' (date_time_string E None)
       (send_header ''Server'' (version_string E)
         (send_response_only E code message h))"












text \<open>The three header lines the claims name, as they appear on the wire.\<close>

definition anti_cache_lines :: "bytes list" where
  "anti_cache_lines =
     [header_line ''Cache-Control'' ''no-cache, no-store, must-revalidate'',
      header_line ''Pragma'' ''no-cache'',
      header_line ''Expires'' ''0'']"

subsection \<open>Paths\<close>

text \<open>\<^verbatim>\<open>str.split(sep)\<close> and \<^verbatim>\<open>sep.join(words)\<close> for a one-character separator.\<close>

fun split :: "char \<Rightarrow> string \<Rightarrow> string list" where
  "split sep [] = [[]]"
| "split sep (c # cs) =
     (if c = sep then [] # split sep cs
      else (case split sep cs of w # ws \<Rightarrow> (c # w) # ws | [] \<Rightarrow> [[c]]))"

fun sep_join :: "char \<Rightarrow> string list \<Rightarrow> string" where
  "sep_join sep [] = []"
| "sep_join sep [w] = w"
| "sep_join sep (w # ws) = w @ [sep] @ sep_join sep ws"

text \<open>
  The loop of \<^verbatim>\<open>posixpath.normpath\<close> over the components:
  \<^verbatim>\<open>
  for comp in comps:
      if comp in (empty, dot):
          continue
      if (comp != dotdot or (not initial_slashes and not new_comps) or
           (new_comps and new_comps[-1] == dotdot)):
          new_comps.append(comp)
      elif new_comps:
          new_comps.pop()
  \<close>
\<close>

fun norm_comps :: "nat \<Rightarrow> string list \<Rightarrow> string list \<Rightarrow> string list" where
  "norm_comps initial_slashes [] new_comps = new_comps"
| "norm_comps initial_slashes (component # comps) new_comps =
     (if component = [] \<or> component = ''.'' then norm_comps initial_slashes comps new_comps
      else if component \<noteq> ''..'' \<or> (initial_slashes = 0 \<and> new_comps = [])
              \<or> (new_comps \<noteq> [] \<and> last new_comps = ''..'')
      then norm_comps initial_slashes comps (new_comps @ [component])
      else if new_comps \<noteq> [] then norm_comps initial_slashes comps (butlast new_comps)
      else norm_comps initial_slashes comps new_comps)"

text \<open>
  \<^verbatim>\<open>posixpath.normpath\<close>:
  \<^verbatim>\<open>
  if path == empty: return dot
  initial_slashes = path.startswith(sep)
  if (initial_slashes and path.startswith(sep*2) and not path.startswith(sep*3)):
      initial_slashes = 2
  comps = path.split(sep)
  (the loop)
  path = sep.join(comps)
  if initial_slashes: path = sep*initial_slashes + path
  return path or dot
  \<close>
\<close>

definition normpath :: "string \<Rightarrow> string" where
  "normpath p =
     (if p = [] then ''.''
      else
        (let initial_slashes =
               (if startswith p ''/''
                then (if startswith p ''//'' \<and> \<not> startswith p ''///'' then 2 else 1)
                else (0::nat));
             comps = norm_comps initial_slashes (split (CHR ''/'') p) [];
             p1 = sep_join (CHR ''/'') comps;
             p2 = (if initial_slashes \<noteq> 0 then replicate initial_slashes (CHR ''/'') @ p1 else p1)
         in if p2 = [] then ''.'' else p2))"

text \<open>
  \<^verbatim>\<open>posixpath.dirname\<close>:
  \<^verbatim>\<open>
  i = p.rfind(sep) + 1
  head = p[:i]
  if head and head != sep*len(head):
      head = head.rstrip(sep)
  return head
  \<close>
\<close>

definition rstrip :: "char \<Rightarrow> string \<Rightarrow> string" where
  "rstrip c s = rev (dropWhile (\<lambda>x. x = c) (rev s))"

definition dirname :: "string \<Rightarrow> string" where
  "dirname p =
     (let head = rev (dropWhile (\<lambda>x. x \<noteq> CHR ''/'') (rev p))
      in if head \<noteq> [] \<and> head \<noteq> replicate (length head) (CHR ''/'')
         then rstrip (CHR ''/'') head
         else head)"

subsection \<open>The process and what the operating system answers at startup\<close>

text \<open>
  Python exceptions the model distinguishes. \<^verbatim>\<open>OSError\<close> (with the name of its error
  number) and \<^verbatim>\<open>UnicodeEncodeError\<close> derive from \<^verbatim>\<open>Exception\<close>; \<^verbatim>\<open>KeyboardInterrupt\<close>
  derives from \<^verbatim>\<open>BaseException\<close> only.
\<close>

datatype exn = OSError string | UnicodeEncodeError | KeyboardInterrupt

fun is_Exception :: "exn \<Rightarrow> bool" where
  "is_Exception (OSError errno) = True"
| "is_Exception UnicodeEncodeError = True"
| "is_Exception KeyboardInterrupt = False"

text \<open>
  The system calls the program attempts, in their order, whether they succeed or not.
\<close>

datatype syscall =
    Chdir string
  | Socket
  | Bind string nat
  | Listen nat
  | Close

text \<open>
  The state of the process that the program changes: the working directory, the text
  written to standard output and to standard error, the listening address of the
  server's socket while it is open and bound, and the system calls attempted so far.
\<close>

record process =
  cwd :: string
  stdout :: string
  stderr :: string
  listening :: "(string \<times> nat) option"
  calls :: "syscall list"

text \<open>
  What the runtime and the operating system answer at startup: the value of
  \<^verbatim>\<open>__file__\<close>, the command line and the environment variables (the program reads
  neither), and for each call that can fail the exception it raises, if any.
\<close>

record os_env =
  dunder_file :: string
  argv :: "string list"
  environ :: "string \<Rightarrow> string option"
  getcwd_error :: "exn option"
  chdir_error :: "string \<Rightarrow> exn option"
  bind_error :: "string \<times> nat \<Rightarrow> exn option"
  listen_error :: "exn option"
  print_error :: "string \<Rightarrow> exn option"

text \<open>
  \<^verbatim>\<open>posixpath.abspath\<close>, with \<^verbatim>\<open>os.getcwd()\<close> read from the process:
  \<^verbatim>\<open>
  if not isabs(path):
      cwd = os.getcwd()
      path = join(cwd, path)
  return normpath(path)
  \<close>
\<close>

definition abspath :: "os_env \<Rightarrow> process \<Rightarrow> string \<Rightarrow> exn + string" where
  "abspath os p name =
     (if \<not> startswith name ''/''
      then (case getcwd_error os of
              Some e \<Rightarrow> Inl e
            | None \<Rightarrow> Inr (normpath (join (cwd p) name)))
      else Inr (normpath name))"

text \<open>\<^verbatim>\<open>os.chdir(d)\<close>.\<close>

definition chdir :: "os_env \<Rightarrow> string \<Rightarrow> process \<Rightarrow> exn option \<times> process" where
  "chdir os d p =
     (case chdir_error os d of
        Some e \<Rightarrow> (Some e, p\<lparr>calls := calls p @ [Chdir d]\<rparr>)
      | None \<Rightarrow> (None, p\<lparr>cwd := d, calls := calls p @ [Chdir d]\<rparr>))"

text \<open>\<^verbatim>\<open>print(line)\<close>: the line and a newline on standard output.\<close>

definition print :: "os_env \<Rightarrow> string \<Rightarrow> process \<Rightarrow> exn option \<times> process" where
  "print os line p =
     (case print_error os line of
        Some e \<Rightarrow> (Some e, p)
      | None \<Rightarrow> (None, p\<lparr>stdout := stdout p @ line @ [CHR 0x0A]\<rparr>))"

subsection \<open>The server object\<close>

text \<open>
  The attributes of a \<^verbatim>\<open>socketserver.TCPServer\<close> that the program reaches:
  \<^verbatim>\<open>server_address\<close> and the private flag \<^verbatim>\<open>__shutdown_request\<close>, which only the method
  \<^verbatim>\<open>shutdown()\<close> sets.
\<close>

record server =
  server_address :: "string \<times> nat"
  shutdown_request :: bool

definition request_queue_size :: nat where
  "request_queue_size = 5"

text \<open>
  \<^verbatim>\<open>TCPServer.server_close\<close>: \<^verbatim>\<open>self.socket.close()\<close>.
\<close>

definition server_close :: "process \<Rightarrow> process" where
  "server_close p = p\<lparr>listening := None, calls := calls p @ [Close]\<rparr>"

text \<open>
  \<^verbatim>\<open>TCPServer.__init__(server_address, RequestHandlerClass)\<close> with \<^verbatim>\<open>server_bind\<close> and
  \<^verbatim>\<open>server_activate\<close>; \<^verbatim>\<open>allow_reuse_address\<close> and \<^verbatim>\<open>allow_reuse_port\<close> are \<^verbatim>\<open>False\<close>:
  \<^verbatim>\<open>
  BaseServer.__init__(self, server_address, RequestHandlerClass)
      (self.server_address = server_address; self.__shutdown_request = False)
  self.socket = socket.socket(self.address_family, self.socket_type)
  try:
      self.server_bind()        (self.socket.bind(self.server_address))
      self.server_activate()    (self.socket.listen(self.request_queue_size))
  except:
      self.server_close()
      raise
  \<close>
\<close>

definition TCPServer :: "os_env \<Rightarrow> string \<times> nat \<Rightarrow> process \<Rightarrow> (exn + server) \<times> process" where
  "TCPServer os address p =
     (let self = \<lparr>server_address = address, shutdown_request = False\<rparr>;
          p1 = p\<lparr>calls := calls p @ [Socket]\<rparr>;
          p2 = p1\<lparr>calls := calls p1 @ [Bind (fst address) (snd address)]\<rparr>
      in case bind_error os address of
           Some e \<Rightarrow> (Inl e, server_close p2)
         | None \<Rightarrow>
             (let p3 = p2\<lparr>calls := calls p2 @ [Listen request_queue_size]\<rparr>
              in case listen_error os of
                   Some e \<Rightarrow> (Inl e, server_close p3)
                 | None \<Rightarrow> (Inr self, p3\<lparr>listening := Some address\<rparr>)))"

subsection \<open>The module body up to the serve loop\<close>

definition PORT :: nat where
  "PORT = 8000"

text \<open>
  The three lines the program prints, as the UTF-8 bytes of the source file's text;
  \<^verbatim>\<open>{PORT}\<close> is \<^verbatim>\<open>str(PORT)\<close>:
  \<^verbatim>\<open>
  print(f"(U+1F680) Servidor iniciado en puerto {PORT}")
  print(f"(U+1F4F1) Accede a: http://localhost:{PORT}")
  print("(U+1F504) Headers anti-cach(U+00E9) activados para desarrollo")
  \<close>
\<close>

definition line1 :: string where
  "line1 = [CHR 0xF0, CHR 0x9F, CHR 0x9A, CHR 0x80] @ '' Servidor iniciado en puerto '' @ str_nat PORT"

definition line2 :: string where
  "line2 = [CHR 0xF0, CHR 0x9F, CHR 0x93, CHR 0xB1] @ '' Accede a: http://localhost:'' @ str_nat PORT"

definition line3 :: string where
  "line3 = [CHR 0xF0, CHR 0x9F, CHR 0x94, CHR 0x84] @ '' Headers anti-cach'' @ [CHR 0xC3, CHR 0xA9]
             @ '' activados para desarrollo''"

text \<open>
  The module body of \<^verbatim>\<open>server.py\<close> up to the call of \<^verbatim>\<open>serve_forever\<close>. The result is the
  server object when the call is reached, or the exception that leaves the module
  body; an exception inside the \<^verbatim>\<open>with\<close> block passes through \<^verbatim>\<open>__exit__\<close>, which calls
  \<^verbatim>\<open>server_close\<close>:
  \<^verbatim>\<open>
  PORT = 8000
  os.chdir(os.path.dirname(os.path.abspath(__file__)))
  with socketserver.TCPServer(("", PORT), NoCacheHTTPRequestHandler) as httpd:
      print(...)
      print(...)
      print(...)
      httpd.serve_forever()
  \<close>
\<close>

definition startup :: "os_env \<Rightarrow> process \<Rightarrow> (exn + server) \<times> process" where
  "startup os p =
     (case abspath os p (dunder_file os) of
        Inl e \<Rightarrow> (Inl e, p)
      | Inr a \<Rightarrow>
          (case chdir os (dirname a) p of
             (Some e, p1) \<Rightarrow> (Inl e, p1)
           | (None, p1) \<Rightarrow>
               (case TCPServer os ([], PORT) p1 of
                  (Inl e, p2) \<Rightarrow> (Inl e, p2)
                | (Inr httpd, p2) \<Rightarrow>
                    (case print os line1 p2 of
                       (Some e, p3) \<Rightarrow> (Inl e, server_close p3)
                     | (None, p3) \<Rightarrow>
                         (case print os line2 p3 of
                            (Some e, p4) \<Rightarrow> (Inl e, server_close p4)
                          | (None, p4) \<Rightarrow>
                              (case print os line3 p4 of
                                 (Some e, p5) \<Rightarrow> (Inl e, server_close p5)
                               | (None, p5) \<Rightarrow> (Inr httpd, p5)))))))"

subsection \<open>The serve loop\<close>

text \<open>
  What one round of the loop meets: \<^verbatim>\<open>selector.select(poll_interval)\<close> returns nothing
  within the interval, or reports the listening socket readable, or raises (a signal
  handler raising \<^verbatim>\<open>KeyboardInterrupt\<close>, an \<^verbatim>\<open>OSError\<close>). For a readable socket,
  \<^verbatim>\<open>get_request\<close> (\<^verbatim>\<open>accept\<close>) raises \<^verbatim>\<open>OSError\<close>, or the request handler runs and returns or
  raises.
\<close>

datatype connection = AcceptFails | Handled "exn option"

datatype event = Timeout | Ready connection | SelectRaises exn

text \<open>
  \<^verbatim>\<open>BaseServer._handle_request_noblock\<close>; \<^verbatim>\<open>verify_request\<close> returns \<^verbatim>\<open>True\<close>, and
  \<^verbatim>\<open>handle_error\<close> prints a traceback to standard error:
  \<^verbatim>\<open>
  try:
      request, client_address = self.get_request()
  except OSError:
      return
  if self.verify_request(request, client_address):
      try:
          self.process_request(request, client_address)
      except Exception:
          self.handle_error(request, client_address)
          self.shutdown_request(request)
      except:
          self.shutdown_request(request)
          raise
  \<close>
\<close>

definition handle_request_noblock :: "server \<Rightarrow> connection \<Rightarrow> exn + server" where
  "handle_request_noblock self c =
     (case c of
        AcceptFails \<Rightarrow> Inr self
      | Handled None \<Rightarrow> Inr self
      | Handled (Some e) \<Rightarrow> (if is_Exception e then Inr self else Inl e))"

text \<open>\<^verbatim>\<open>BaseServer.service_actions\<close>: \<^verbatim>\<open>pass\<close>.\<close>

definition service_actions :: "server \<Rightarrow> server" where
  "service_actions self = self"

text \<open>
  \<^verbatim>\<open>BaseServer.serve_forever\<close>. The result is \<open>None\<close> when the call never returns,
  \<open>Some (Inl e)\<close> when the exception \<open>e\<close> leaves it and \<open>Some (Inr self)\<close> when it returns:
  \<^verbatim>\<open>
  try:
      with _ServerSelector() as selector:
          selector.register(self, selectors.EVENT_READ)
          while not self.__shutdown_request:
              ready = selector.select(poll_interval)
              if self.__shutdown_request:
                  break
              if ready:
                  self._handle_request_noblock()
              self.service_actions()
  finally:
      self.__shutdown_request = False
      self.__is_shut_down.set()
  \<close>
  No thread other than the one in the loop exists, so the flag does not change during
  \<^verbatim>\<open>select\<close>.
\<close>

partial_function (option) serve_forever :: "server \<Rightarrow> event stream \<Rightarrow> (exn + server) option" where
  "serve_forever self evs =
     (if shutdown_request self then Some (Inr (self\<lparr>shutdown_request := False\<rparr>))
      else (case shd evs of
              SelectRaises e \<Rightarrow> Some (Inl e)
            | Timeout \<Rightarrow> serve_forever (service_actions self) (stl evs)
            | Ready c \<Rightarrow>
                (case handle_request_noblock self c of
                   Inl e \<Rightarrow> Some (Inl e)
                 | Inr self1 \<Rightarrow> serve_forever (service_actions self1) (stl evs))))"

text \<open>
  The whole program: how the process ends, or \<open>None\<close> when it does not end. An
  exception that leaves the module body is unhandled: the interpreter prints the
  traceback and the process ends with a non-zero status.
\<close>

datatype ending = Unhandled exn | Returned

definition program :: "os_env \<Rightarrow> process \<Rightarrow> event stream \<Rightarrow> ending option" where
  "program os p evs =
     (case startup os p of
        (Inl e, p1) \<Rightarrow> Some (Unhandled e)
      | (Inr httpd, p1) \<Rightarrow>
          (case serve_forever httpd evs of
             None \<Rightarrow> None
           | Some (Inl e) \<Rightarrow> Some (Unhandled e)
           | Some (Inr self) \<Rightarrow> Some Returned))"

text \<open>
  The exit status of the interpreter: 0 when the module body returns, 1 after an
  unhandled exception that derives from \<^verbatim>\<open>Exception\<close>; after an unhandled
  \<^verbatim>\<open>KeyboardInterrupt\<close> the interpreter ends the process by the interrupt signal, which a
  shell reports as 130.
\<close>

fun exit_status :: "ending \<Rightarrow> nat" where
  "exit_status Returned = 0"
| "exit_status (Unhandled e) = (if is_Exception e then 1 else 130)"

subsection \<open>A concrete startup\<close>

text \<open>
  The program at \<^verbatim>\<open>/home/dev/XRP/server.py\<close>, started from \<^verbatim>\<open>/tmp\<close> as
  \<^verbatim>\<open>python3 ../home/dev/XRP/server.py\<close>, where every call succeeds.
\<close>

definition example_os :: os_env where
  "example_os =
     \<lparr>dunder_file = ''../home/dev/XRP/server.py'',
      argv = [''../home/dev/XRP/server.py''],
      environ = (\<lambda>name. None),
      getcwd_error = None,
      chdir_error = (\<lambda>d. None),
      bind_error = (\<lambda>address. None),
      listen_error = None,
      print_error = (\<lambda>line. None)\<rparr>"

definition example_process :: process where
  "example_process = \<lparr>cwd = ''/tmp'', stdout = [], stderr = [], listening = None, calls = []\<rparr>"

text \<open>The events at which an exception leaves the serve loop.\<close>

fun raises :: "event \<Rightarrow> bool" where
  "raises Timeout = False"
| "raises (Ready AcceptFails) = False"
| "raises (Ready (Handled None)) = False"
| "raises (Ready (Handled (Some e))) = (\<not> is_Exception e)"
| "raises (SelectRaises e) = True"

text \<open>
  The same start where another process already listens on the port, where the port may
  not be bound, where the directory of the program cannot be entered, and where the
  starting directory no longer exists.
\<close>

definition port_in_use_os :: os_env where
  "port_in_use_os = example_os\<lparr>bind_error := (\<lambda>address. Some (OSError ''EADDRINUSE''))\<rparr>"

definition permission_denied_os :: os_env where
  "permission_denied_os = example_os\<lparr>bind_error := (\<lambda>address. Some (OSError ''EACCES''))\<rparr>"

definition missing_directory_os :: os_env where
  "missing_directory_os = example_os\<lparr>chdir_error := (\<lambda>d. Some (OSError ''ENOENT''))\<rparr>"

definition deleted_cwd_os :: os_env where
  "deleted_cwd_os = example_os\<lparr>getcwd_error := Some (OSError ''ENOENT'')\<rparr>"

subsection \<open>Concrete requests\<close>







section \<open>Properties\<close>

lemma send_header_fields [simp]:
  "request_version (send_header k v h) = request_version h"
  "wfile (send_header k v h) = wfile h"
  "command (send_header k v h) = command h"
  "path (send_header k v h) = path h"
  "headers (send_header k v h) = headers h"
  by (simp_all add: send_header_def Let_def)

lemma send_header_buffer [simp]:
  "headers_buffer (send_header k v h) =
     (if request_version h \<noteq> ''HTTP/0.9'' then headers_buffer h @ [header_line k v] else headers_buffer h)"
  by (simp add: send_header_def Let_def)

lemma send_response_only_fields [simp]:
  "request_version (send_response_only E c m h) = request_version h"
  "wfile (send_response_only E c m h) = wfile h"
  "command (send_response_only E c m h) = command h"
  by (simp_all add: send_response_only_def)

lemma send_response_only_buffer [simp]:
  "headers_buffer (send_response_only E c m h) =
     (if request_version h \<noteq> ''HTTP/0.9''
      then headers_buffer h @ [status_line c (case m of None \<Rightarrow> phrase E c | Some x \<Rightarrow> x)]
      else headers_buffer h)"
  by (simp add: send_response_only_def)

lemma send_response_fields [simp]:
  "request_version (send_response E c m h) = request_version h"
  "wfile (send_response E c m h) = wfile h"
  "command (send_response E c m h) = command h"
  by (simp_all add: send_response_def)

lemma send_response_buffer [simp]:
  "headers_buffer (send_response E c m h) =
     (if request_version h \<noteq> ''HTTP/0.9''
      then headers_buffer h @ [status_line c (case m of None \<Rightarrow> phrase E c | Some x \<Rightarrow> x),
             header_line ''Server'' (version_string E), header_line ''Date'' (date_time_string E None)]
      else headers_buffer h)"
  by (simp add: send_response_def)

lemma end_headers_fields [simp]:
  "request_version (end_headers h) = request_version h"
  "command (end_headers h) = command h"
  by (simp_all add: end_headers_def base_end_headers_def flush_headers_def)

lemma end_headers_wfile:
  "wfile (end_headers h) =
     (if request_version h \<noteq> ''HTTP/0.9''
      then wfile h @ concat (headers_buffer h) @ concat anti_cache_lines @ CRLF
      else wfile h)"
  by (simp add: end_headers_def base_end_headers_def flush_headers_def anti_cache_lines_def)

lemma base_end_headers_wfile:
  "wfile (base_end_headers h) =
     (if request_version h \<noteq> ''HTTP/0.9''
      then wfile h @ concat (headers_buffer h) @ CRLF
      else wfile h)"
  by (simp add: base_end_headers_def flush_headers_def)

subsection \<open>The override keeps what the inherited handler buffered\<close>

text \<open>
  Claim C3. The three anti-cache headers are added in addition to the header lines the
  inherited static-file handler produced. Whatever lines the inherited methods have put
  into the headers buffer (status line, \<^verbatim>\<open>Server\<close>, \<^verbatim>\<open>Date\<close>, \<^verbatim>\<open>Content-type\<close>,
  \<^verbatim>\<open>Content-Length\<close>, \<^verbatim>\<open>Last-Modified\<close>, ...), the overriding \<open>end_headers\<close> writes
  all of them, unmodified and in their order, then the three anti-cache lines, then the
  blank line; the inherited \<open>base_end_headers\<close> alone would have written the same lines
  and the blank line. For an HTTP/0.9 request neither method writes anything, and the
  inherited methods have buffered no line.
\<close>

theorem end_headers_keeps_base_lines:
  "wfile (end_headers h) =
     (if request_version h \<noteq> ''HTTP/0.9''
      then wfile h @ concat (headers_buffer h) @ concat anti_cache_lines @ CRLF
      else wfile h)
   \<and> wfile (base_end_headers h) =
     (if request_version h \<noteq> ''HTTP/0.9''
      then wfile h @ concat (headers_buffer h) @ CRLF
      else wfile h)"
  by (simp add: end_headers_wfile base_end_headers_wfile)
subsection \<open>Startup\<close>

lemma str_nat_PORT: "str_nat PORT = ''8000''"
  by (simp add: PORT_def str_nat.simps digit_def)

lemma dirname_of_file:
  assumes "CHR ''/'' \<notin> set n" "d \<noteq> []" "last d \<noteq> CHR ''/''"
  shows "dirname (d @ ''/'' @ n) = d"
proof -
  have n: "dropWhile (\<lambda>x. x \<noteq> CHR ''/'') (rev n @ CHR ''/'' # rev d) = CHR ''/'' # rev d"
    using assms(1) by (subst dropWhile_append2) auto
  have hd: "hd (rev d) \<noteq> CHR ''/''"
    using assms(2,3) by (simp add: hd_rev)
  have rd: "rev d \<noteq> []" using assms(2) by simp
  have dw: "dropWhile (\<lambda>x. x = CHR ''/'') (rev d) = rev d"
    using hd rd by (cases "rev d") auto
  have ne: "d @ ''/'' \<noteq> replicate (Suc (length d)) (CHR ''/'')"
  proof
    assume eq: "d @ ''/'' = replicate (Suc (length d)) (CHR ''/'')"
    have "last d \<in> set (d @ ''/'')" using assms(2) by simp
    then have "last d \<in> set (replicate (Suc (length d)) (CHR ''/''))" by (simp only: eq)
    then show False using assms(3) by simp
  qed
  show ?thesis
    using ne by (simp add: dirname_def Let_def n rstrip_def dw)
qed

lemma startup_success:
  assumes "startup os p = (Inr httpd, p')"
  shows "\<exists>a. abspath os p (dunder_file os) = Inr a
           \<and> chdir_error os (dirname a) = None
           \<and> bind_error os ([], PORT) = None
           \<and> listen_error os = None
           \<and> httpd = \<lparr>server_address = ([], PORT), shutdown_request = False\<rparr>
           \<and> p' = p\<lparr>cwd := dirname a,
                     stdout := stdout p @ line1 @ [CHR 0x0A] @ line2 @ [CHR 0x0A] @ line3 @ [CHR 0x0A],
                     listening := Some ([], PORT),
                     calls := calls p @ [Chdir (dirname a), Socket, Bind [] PORT, Listen request_queue_size]\<rparr>"
  using assms
  by (auto simp: startup_def chdir_def TCPServer_def print_def Let_def
           split: sum.splits option.splits prod.splits)

lemma example_abspath:
  "abspath example_os example_process (dunder_file example_os) = Inr (''/home/dev/XRP'' @ ''/'' @ ''server.py'')"
  by (simp add: abspath_def example_os_def example_process_def startswith_def join_def endswith_def
      normpath_def Let_def)

lemma example_startup:
  "startup example_os example_process =
     (Inr \<lparr>server_address = ([], 8000), shutdown_request = False\<rparr>,
      \<lparr>cwd = ''/home/dev/XRP'',
       stdout = line1 @ [CHR 0x0A] @ line2 @ [CHR 0x0A] @ line3 @ [CHR 0x0A],
       stderr = [],
       listening = Some ([], 8000),
       calls = [Chdir ''/home/dev/XRP'', Socket, Bind [] 8000, Listen 5]\<rparr>)"
proof -
  have d: "dirname ''/home/dev/XRP/server.py'' = ''/home/dev/XRP''"
    by (simp add: dirname_def rstrip_def Let_def)
  show ?thesis
    using example_abspath d
    by (simp add: startup_def chdir_def TCPServer_def print_def Let_def example_os_def
        example_process_def PORT_def request_queue_size_def)
qed



lemma startup_getcwd_fails:
  assumes "\<not> startswith (dunder_file os) ''/''" and "getcwd_error os = Some e"
  shows "startup os p = (Inl e, p)"
  using assms by (simp add: startup_def abspath_def)

lemma startup_chdir_fails:
  assumes "abspath os p (dunder_file os) = Inr a" and "chdir_error os (dirname a) = Some e"
  shows "startup os p = (Inl e, p\<lparr>calls := calls p @ [Chdir (dirname a)]\<rparr>)"
  using assms by (simp add: startup_def chdir_def)

lemma startup_bind_fails:
  assumes "abspath os p (dunder_file os) = Inr a" and "chdir_error os (dirname a) = None"
      and "bind_error os ([], PORT) = Some e"
  shows "startup os p =
           (Inl e, p\<lparr>cwd := dirname a, listening := None,
                     calls := calls p @ [Chdir (dirname a), Socket, Bind [] PORT, Close]\<rparr>)"
  using assms by (simp add: startup_def chdir_def TCPServer_def server_close_def Let_def)

lemma program_startup_fails:
  "fst (startup os p) = Inl e \<Longrightarrow> program os p evs = Some (Unhandled e)"
  by (cases "startup os p") (simp add: program_def)

lemma exit_status_Unhandled: "exit_status (Unhandled e) \<noteq> 0"
  by simp

lemma example_failing_abspath:
  "abspath port_in_use_os example_process (dunder_file port_in_use_os) = Inr (''/home/dev/XRP'' @ ''/'' @ ''server.py'')"
  "abspath permission_denied_os example_process (dunder_file permission_denied_os) = Inr (''/home/dev/XRP'' @ ''/'' @ ''server.py'')"
  "abspath missing_directory_os example_process (dunder_file missing_directory_os) = Inr (''/home/dev/XRP'' @ ''/'' @ ''server.py'')"
  by (simp_all add: abspath_def port_in_use_os_def permission_denied_os_def missing_directory_os_def
      example_os_def example_process_def startswith_def join_def endswith_def normpath_def Let_def)

text \<open>
  Claim C6. Every startup failure is fatal. When \<^verbatim>\<open>os.getcwd\<close> raises while the
  program's directory is resolved, when \<^verbatim>\<open>os.chdir\<close> raises, or when binding the port
  raises (address in use, permission denied, or any other exception), the exception
  leaves the module body unhandled: the process ends with a non-zero status whatever
  connections would have arrived, the failed call was attempted once and no call is
  attempted after it except closing the socket.
\<close>

theorem startup_failures_are_fatal:
  "(\<not> startswith (dunder_file os) ''/'' \<and> getcwd_error os = Some e \<longrightarrow>
      startup os p = (Inl e, p) \<and> program os p evs = Some (Unhandled e))
   \<and> (abspath os p (dunder_file os) = Inr a \<and> chdir_error os (dirname a) = Some e \<longrightarrow>
      fst (startup os p) = Inl e
      \<and> calls (snd (startup os p)) = calls p @ [Chdir (dirname a)]
      \<and> program os p evs = Some (Unhandled e))
   \<and> (abspath os p (dunder_file os) = Inr a \<and> chdir_error os (dirname a) = None
        \<and> bind_error os ([], PORT) = Some e \<longrightarrow>
      fst (startup os p) = Inl e
      \<and> calls (snd (startup os p)) = calls p @ [Chdir (dirname a), Socket, Bind [] PORT, Close]
      \<and> listening (snd (startup os p)) = None
      \<and> program os p evs = Some (Unhandled e))
   \<and> exit_status (Unhandled e) \<noteq> 0"
proof (intro conjI impI)
  assume "\<not> startswith (dunder_file os) ''/'' \<and> getcwd_error os = Some e"
  then have s: "startup os p = (Inl e, p)" by (simp add: startup_getcwd_fails)
  show "startup os p = (Inl e, p)" by (rule s)
  show "program os p evs = Some (Unhandled e)" by (simp add: program_startup_fails s)
next
  assume "abspath os p (dunder_file os) = Inr a \<and> chdir_error os (dirname a) = Some e"
  then have s: "startup os p = (Inl e, p\<lparr>calls := calls p @ [Chdir (dirname a)]\<rparr>)"
    by (simp add: startup_chdir_fails)
  show "fst (startup os p) = Inl e" by (simp add: s)
  show "calls (snd (startup os p)) = calls p @ [Chdir (dirname a)]" by (simp add: s)
  show "program os p evs = Some (Unhandled e)" by (simp add: program_startup_fails s)
next
  assume "abspath os p (dunder_file os) = Inr a \<and> chdir_error os (dirname a) = None
        \<and> bind_error os ([], PORT) = Some e"
  then have s: "startup os p =
           (Inl e, p\<lparr>cwd := dirname a, listening := None,
                     calls := calls p @ [Chdir (dirname a), Socket, Bind [] PORT, Close]\<rparr>)"
    by (simp add: startup_bind_fails)
  show "fst (startup os p) = Inl e" by (simp add: s)
  show "calls (snd (startup os p)) = calls p @ [Chdir (dirname a), Socket, Bind [] PORT, Close]"
    by (simp add: s)
  show "listening (snd (startup os p)) = None" by (simp add: s)
  show "program os p evs = Some (Unhandled e)" by (simp add: program_startup_fails s)
next
  show "exit_status (Unhandled e) \<noteq> 0" by simp
qed

theorem startup_failures_are_fatal_witness:
  "program deleted_cwd_os example_process (sconst (Ready (Handled None))) = Some (Unhandled (OSError ''ENOENT''))
   \<and> program missing_directory_os example_process (sconst (Ready (Handled None))) = Some (Unhandled (OSError ''ENOENT''))
   \<and> program port_in_use_os example_process (sconst (Ready (Handled None))) = Some (Unhandled (OSError ''EADDRINUSE''))
   \<and> program permission_denied_os example_process (sconst (Ready (Handled None))) = Some (Unhandled (OSError ''EACCES''))
   \<and> calls (snd (startup port_in_use_os example_process)) = [Chdir ''/home/dev/XRP'', Socket, Bind [] 8000, Close]
   \<and> exit_status (Unhandled (OSError ''EADDRINUSE'')) = 1"
proof -
  have d: "dirname ''/home/dev/XRP/server.py'' = ''/home/dev/XRP''"
    by (simp add: dirname_def rstrip_def Let_def)
  have 1: "\<not> startswith (dunder_file deleted_cwd_os) ''/'' \<and> getcwd_error deleted_cwd_os = Some (OSError ''ENOENT'')"
    by (simp add: deleted_cwd_os_def example_os_def startswith_def)
  have 2: "abspath missing_directory_os example_process (dunder_file missing_directory_os) = Inr ''/home/dev/XRP/server.py''
           \<and> chdir_error missing_directory_os (dirname ''/home/dev/XRP/server.py'') = Some (OSError ''ENOENT'')"
    using example_failing_abspath(3) by (simp add: missing_directory_os_def example_os_def)
  have 3: "abspath port_in_use_os example_process (dunder_file port_in_use_os) = Inr ''/home/dev/XRP/server.py''
           \<and> chdir_error port_in_use_os (dirname ''/home/dev/XRP/server.py'') = None
           \<and> bind_error port_in_use_os ([], PORT) = Some (OSError ''EADDRINUSE'')"
    using example_failing_abspath(1) by (simp add: port_in_use_os_def example_os_def)
  have 4: "abspath permission_denied_os example_process (dunder_file permission_denied_os) = Inr ''/home/dev/XRP/server.py''
           \<and> chdir_error permission_denied_os (dirname ''/home/dev/XRP/server.py'') = None
           \<and> bind_error permission_denied_os ([], PORT) = Some (OSError ''EACCES'')"
    using example_failing_abspath(2) by (simp add: permission_denied_os_def example_os_def)
  show ?thesis
    using 1 2 3 4 d
      startup_failures_are_fatal [of deleted_cwd_os "OSError ''ENOENT''" example_process
        "sconst (Ready (Handled None))" "''/home/dev/XRP/server.py''"]
      startup_failures_are_fatal [of missing_directory_os "OSError ''ENOENT''" example_process
        "sconst (Ready (Handled None))" "''/home/dev/XRP/server.py''"]
      startup_failures_are_fatal [of port_in_use_os "OSError ''EADDRINUSE''" example_process
        "sconst (Ready (Handled None))" "''/home/dev/XRP/server.py''"]
      startup_failures_are_fatal [of permission_denied_os "OSError ''EACCES''" example_process
        "sconst (Ready (Handled None))" "''/home/dev/XRP/server.py''"]
    by (simp add: example_process_def PORT_def)
qed

text \<open>
  Claim C10. The working directory is changed before the listening socket is created:
  when \<^verbatim>\<open>os.chdir\<close> has succeeded and binding the port raises, the process ends with the
  unhandled exception and its working directory is already the program's own
  directory \<open>d\<close>; the only calls attempted are \<^verbatim>\<open>chdir\<close>, then creating, binding and
  closing the socket.
\<close>

theorem cwd_changed_before_bind_failure:
  assumes "abspath os p (dunder_file os) = Inr (d @ ''/'' @ n)"
      and "CHR ''/'' \<notin> set n" and "d \<noteq> []" and "last d \<noteq> CHR ''/''"
      and "chdir_error os d = None"
      and "bind_error os ([], PORT) = Some e"
  shows "fst (startup os p) = Inl e
       \<and> cwd (snd (startup os p)) = d
       \<and> calls (snd (startup os p)) = calls p @ [Chdir d, Socket, Bind [] PORT, Close]
       \<and> program os p evs = Some (Unhandled e)"
proof -
  have d: "dirname (d @ ''/'' @ n) = d" by (rule dirname_of_file [OF assms(2-4)])
  have s: "startup os p =
           (Inl e, p\<lparr>cwd := d, listening := None,
                     calls := calls p @ [Chdir d, Socket, Bind [] PORT, Close]\<rparr>)"
    using startup_bind_fails [OF assms(1), of e] assms(5,6) d by simp
  show ?thesis by (simp add: s program_startup_fails)
qed

theorem cwd_changed_before_bind_failure_witness:
  "cwd example_process = ''/tmp''
   \<and> fst (startup port_in_use_os example_process) = Inl (OSError ''EADDRINUSE'')
   \<and> cwd (snd (startup port_in_use_os example_process)) = ''/home/dev/XRP''
   \<and> calls (snd (startup port_in_use_os example_process)) = [Chdir ''/home/dev/XRP'', Socket, Bind [] 8000, Close]
   \<and> program port_in_use_os example_process (sconst Timeout) = Some (Unhandled (OSError ''EADDRINUSE''))"
proof -
  have n: "CHR ''/'' \<notin> set ''server.py''" by simp
  have d: "''/home/dev/XRP'' \<noteq> []" "last ''/home/dev/XRP'' \<noteq> CHR ''/''" by simp_all
  have c: "chdir_error port_in_use_os ''/home/dev/XRP'' = None"
    by (simp add: port_in_use_os_def example_os_def)
  have b: "bind_error port_in_use_os ([], PORT) = Some (OSError ''EADDRINUSE'')"
    by (simp add: port_in_use_os_def example_os_def)
  show ?thesis
    using cwd_changed_before_bind_failure [OF example_failing_abspath(1) n d c b, of "sconst Timeout"]
    by (simp add: example_process_def PORT_def)
qed

text \<open>
  Claim C9. On a successful startup the program writes exactly three fixed lines to
  standard output before it enters the serve loop: the first two name the port 8000,
  the third says that the anti-cache headers are active. It writes nothing else to
  standard output and nothing to standard error.
\<close>

theorem startup_prints_three_lines:
  assumes "startup os p = (Inr httpd, p')"
  shows "stdout p' = stdout p
           @ [CHR 0xF0, CHR 0x9F, CHR 0x9A, CHR 0x80] @ '' Servidor iniciado en puerto 8000'' @ [CHR 0x0A]
           @ [CHR 0xF0, CHR 0x9F, CHR 0x93, CHR 0xB1] @ '' Accede a: http://localhost:8000'' @ [CHR 0x0A]
           @ [CHR 0xF0, CHR 0x9F, CHR 0x94, CHR 0x84] @ '' Headers anti-cach'' @ [CHR 0xC3, CHR 0xA9]
               @ '' activados para desarrollo'' @ [CHR 0x0A]
       \<and> stderr p' = stderr p"
proof -
  from startup_success [OF assms] obtain a where
    "p' = p\<lparr>cwd := dirname a,
             stdout := stdout p @ line1 @ [CHR 0x0A] @ line2 @ [CHR 0x0A] @ line3 @ [CHR 0x0A],
             listening := Some ([], PORT),
             calls := calls p @ [Chdir (dirname a), Socket, Bind [] PORT, Listen request_queue_size]\<rparr>"
    by auto
  then show ?thesis
    by (simp add: line1_def line2_def line3_def str_nat_PORT)
qed

theorem startup_prints_three_lines_witness:
  "startup example_os example_process =
     (Inr \<lparr>server_address = ([], 8000), shutdown_request = False\<rparr>, snd (startup example_os example_process))
   \<and> stdout (snd (startup example_os example_process)) =
        [CHR 0xF0, CHR 0x9F, CHR 0x9A, CHR 0x80] @ '' Servidor iniciado en puerto 8000'' @ [CHR 0x0A]
        @ [CHR 0xF0, CHR 0x9F, CHR 0x93, CHR 0xB1] @ '' Accede a: http://localhost:8000'' @ [CHR 0x0A]
        @ [CHR 0xF0, CHR 0x9F, CHR 0x94, CHR 0x84] @ '' Headers anti-cach'' @ [CHR 0xC3, CHR 0xA9]
            @ '' activados para desarrollo'' @ [CHR 0x0A]
   \<and> stderr (snd (startup example_os example_process)) = []"
proof -
  have s: "startup example_os example_process =
     (Inr \<lparr>server_address = ([], 8000), shutdown_request = False\<rparr>, snd (startup example_os example_process))"
    by (simp add: example_startup)
  show ?thesis
    using s startup_prints_three_lines [OF s] by (simp add: example_process_def)
qed




subsection \<open>The serve loop\<close>

lemma handle_request_noblock_keeps:
  "handle_request_noblock self c = Inr self1 \<Longrightarrow> self1 = self"
  by (auto simp: handle_request_noblock_def split: connection.splits option.splits if_splits)

lemma handle_request_noblock_no_raise:
  "\<not> raises (Ready c) \<Longrightarrow> handle_request_noblock self c = Inr self"
  by (cases c) (auto simp: handle_request_noblock_def split: option.splits)

lemmas serve_forever_induct = serve_forever.raw_induct [rotated 1, consumes 1, case_names step]

lemma serve_forever_result_aux:
  assumes "serve_forever self evs = Some y"
  shows "\<not> shutdown_request self \<longrightarrow> (\<exists>e. y = Inl e)"
  using assms
proof (induct rule: serve_forever_induct)
  case (step f self evs y)
  note 1 = step
  show ?case
  proof
    assume flag: "\<not> shutdown_request self"
    show "\<exists>e. y = Inl e"
    proof (cases "shd evs")
      case Timeout
      with 1(2) flag have "f (service_actions self) (stl evs) = Some y" by simp
      from 1(1) [OF this] flag show ?thesis by (simp add: service_actions_def)
    next
      case (Ready c)
      show ?thesis
      proof (cases "handle_request_noblock self c")
        case (Inl e)
        with 1(2) flag Ready show ?thesis by auto
      next
        case (Inr self1)
        then have "self1 = self" by (rule handle_request_noblock_keeps)
        with Inr 1(2) flag Ready have "f (service_actions self) (stl evs) = Some y" by simp
        from 1(1) [OF this] flag show ?thesis by (simp add: service_actions_def)
      qed
    next
      case (SelectRaises e)
      with 1(2) flag show ?thesis by auto
    qed
  qed
qed

lemma serve_forever_result:
  assumes "serve_forever self evs = Some y" and "\<not> shutdown_request self"
  shows "\<exists>e. y = Inl e"
  using serve_forever_result_aux [OF assms(1)] assms(2) by blast

lemma serve_forever_no_raise_aux:
  assumes "serve_forever self evs = Some y"
  shows "\<not> shutdown_request self \<longrightarrow> (\<exists>ev \<in> sset evs. raises ev)"
  using assms
proof (induct rule: serve_forever_induct)
  case (step f self evs y)
  show ?case
  proof
    assume flag: "\<not> shutdown_request self"
    show "\<exists>ev \<in> sset evs. raises ev"
    proof (cases "raises (shd evs)")
      case True
      have "shd evs \<in> sset evs" by (rule shd_sset)
      with True show ?thesis by (rule bexI)
    next
      case False
      have run: "f (service_actions self) (stl evs) = Some y"
      proof (cases "shd evs")
        case Timeout
        with step(2) flag show ?thesis by simp
      next
        case (Ready c)
        with False have "\<not> raises (Ready c)" by simp
        then have "handle_request_noblock self c = Inr self"
          by (rule handle_request_noblock_no_raise)
        with step(2) flag Ready show ?thesis by simp
      next
        case (SelectRaises e)
        with False have "\<not> raises (SelectRaises e)" by simp
        then show ?thesis by simp
      qed
      have "\<not> shutdown_request (service_actions self)"
        using flag by (simp add: service_actions_def)
      with step(1) [OF run] obtain ev where ev: "ev \<in> sset (stl evs)" and r: "raises ev"
        by blast
      from ev have "ev \<in> sset evs" by (rule stl_sset)
      with r show ?thesis by (rule bexI)
    qed
  qed
qed

lemma serve_forever_no_raise:
  assumes "serve_forever self evs = Some y" and "\<not> shutdown_request self"
      and "\<forall>ev \<in> sset evs. \<not> raises ev"
  shows False
  using serve_forever_no_raise_aux [OF assms(1)] assms(2,3) by blast

lemma serve_forever_after_served:
  assumes "\<not> shutdown_request self" and "\<forall>ev \<in> set served. \<not> raises ev"
  shows "serve_forever self (served @- evs) = serve_forever self evs"
  using assms(2)
proof (induction served)
  case Nil
  show ?case by simp
next
  case (Cons ev served)
  then have ih: "serve_forever self (served @- evs) = serve_forever self evs" by simp
  from Cons(2) have nr: "\<not> raises ev" by simp
  show ?case
  proof (cases ev)
    case Timeout
    then show ?thesis
      using assms(1) ih by (subst serve_forever.simps) (simp add: service_actions_def)
  next
    case (Ready c)
    with nr have "handle_request_noblock self c = Inr self"
      by (simp add: handle_request_noblock_no_raise)
    with Ready show ?thesis
      using assms(1) ih by (subst serve_forever.simps) (simp add: service_actions_def)
  next
    case (SelectRaises e)
    with nr show ?thesis by simp
  qed
qed

text \<open>
  Claim C7. Once the server is in its accept loop, the loop does not end of its own
  accord. For the server object that startup hands to \<^verbatim>\<open>serve_forever\<close>: the call never
  returns normally, so the program never returns from its module body; after any
  number of rounds in which no exception leaves the loop (idle polls, served
  connections, failed accepts, handler errors that derive from \<^verbatim>\<open>Exception\<close>) the loop
  goes on exactly as before; and when no such exception ever arrives, the call and
  the program never end. The only way out is an exception that leaves the loop
  (an interrupt, or an error raised by \<^verbatim>\<open>select\<close>).
\<close>

theorem serve_forever_never_returns:
  assumes "startup os p = (Inr httpd, p')"
  shows "(\<forall>self. serve_forever httpd evs \<noteq> Some (Inr self))
       \<and> program os p evs \<noteq> Some Returned
       \<and> ((\<forall>ev \<in> set served. \<not> raises ev) \<longrightarrow>
            serve_forever httpd (served @- evs) = serve_forever httpd evs)
       \<and> ((\<forall>ev \<in> sset evs. \<not> raises ev) \<longrightarrow>
            serve_forever httpd evs = None \<and> program os p evs = None)"
proof -
  from startup_success [OF assms] have flag: "\<not> shutdown_request httpd" by auto
  have 1: "\<forall>self. serve_forever httpd evs \<noteq> Some (Inr self)"
    using serve_forever_result [OF _ flag] by blast
  have 2: "program os p evs \<noteq> Some Returned"
    using 1 assms by (auto simp: program_def split: option.splits sum.splits)
  have 3: "(\<forall>ev \<in> set served. \<not> raises ev) \<longrightarrow>
            serve_forever httpd (served @- evs) = serve_forever httpd evs"
    using serve_forever_after_served [OF flag] by blast
  have 4: "(\<forall>ev \<in> sset evs. \<not> raises ev) \<longrightarrow>
            serve_forever httpd evs = None \<and> program os p evs = None"
  proof
    assume nr: "\<forall>ev \<in> sset evs. \<not> raises ev"
    have "serve_forever httpd evs = None"
    proof (cases "serve_forever httpd evs")
      case None
      then show ?thesis .
    next
      case (Some y)
      from serve_forever_no_raise [OF Some flag nr] show ?thesis ..
    qed
    then show "serve_forever httpd evs = None \<and> program os p evs = None"
      using assms by (simp add: program_def)
  qed
  from 1 2 3 4 show ?thesis by blast
qed

theorem serve_forever_never_returns_witness:
  "startup example_os example_process =
     (Inr \<lparr>server_address = ([], 8000), shutdown_request = False\<rparr>, snd (startup example_os example_process))
   \<and> serve_forever \<lparr>server_address = ([], 8000), shutdown_request = False\<rparr>
        ([Ready (Handled None), Timeout, Ready (Handled (Some (OSError ''EPIPE''))), Ready AcceptFails]
           @- sconst (Ready (Handled None)))
      = serve_forever \<lparr>server_address = ([], 8000), shutdown_request = False\<rparr> (sconst (Ready (Handled None)))
   \<and> serve_forever \<lparr>server_address = ([], 8000), shutdown_request = False\<rparr> (sconst (Ready (Handled None))) = None
   \<and> program example_os example_process (sconst (Ready (Handled None))) = None"
proof -
  have s: "startup example_os example_process =
     (Inr \<lparr>server_address = ([], 8000), shutdown_request = False\<rparr>, snd (startup example_os example_process))"
    by (simp add: example_startup)
  show ?thesis
    using s serve_forever_never_returns [OF s, of "sconst (Ready (Handled None))"
        "[Ready (Handled None), Timeout, Ready (Handled (Some (OSError ''EPIPE''))), Ready AcceptFails]"]
    by simp
qed

subsection \<open>Responses\<close>





























end
